theory Spec2Isabelle
  imports Main "HOL-Library.Word"
begin

section \<open>Shared memory reader: the ring buffer of \<^verbatim>\<open>shared_memory.cc\<close>\<close>

text \<open>
  The consumer side of a file-backed ring buffer. The file starts with a
  64-byte header of six \<^verbatim>\<open>uint32_t\<close> fields; slot \<open>i\<close> begins at
  \<open>HEADER_SIZE + i * slot_size\<close> and holds a 4-byte length followed by the
  payload.

  Platform conventions of the embedding: \<^verbatim>\<open>size_t\<close> is 64 bits wide and the
  byte order is little-endian (the 64-bit hosts the module is built for);
  \<^verbatim>\<open>uint32_t\<close> arithmetic wraps modulo \<open>2 ^ 32\<close>, \<^verbatim>\<open>size_t\<close> arithmetic
  modulo \<open>2 ^ 64\<close>.
\<close>

subsection \<open>Machine types\<close>

type_synonym byte = "8 word"
type_synonym u32 = "32 word"
type_synonym size_t = "64 word"

text \<open>\<^verbatim>\<open>static constexpr uint32_t HEADER_SIZE = 64;\<close>\<close>

definition HEADER_SIZE :: u32 where
  "HEADER_SIZE = 64"

subsection \<open>Outcomes of a method call\<close>

text \<open>
  The JavaScript exceptions the module throws, named by kind:
  \<^item> \<open>TypeError\<close>: \<^verbatim>\<open>"Expected string path argument"\<close>;
  \<^item> \<open>OpenError\<close>: \<^verbatim>\<open>"Failed to open shared memory file: ..."\<close>;
  \<^item> \<open>SizeError\<close>: \<^verbatim>\<open>"Shared memory file too small or stat failed"\<close>;
  \<^item> \<open>MapError\<close>: \<^verbatim>\<open>"mmap failed for shared memory file"\<close>;
  \<^item> \<open>ClosedError\<close>: \<^verbatim>\<open>"SharedMemoryReader is closed"\<close>;
  \<^item> \<open>BoundsError\<close>: \<^verbatim>\<open>"Slot offset exceeds file size"\<close>.
\<close>

datatype error = TypeError | OpenError | SizeError | MapError | ClosedError | BoundsError

text \<open>
  What C++ leaves undefined and the hardware may trap on: an integer
  remainder by zero, and a read of a byte that lies outside the mapping.
\<close>

datatype fault = DivisionByZero | OutOfBounds

datatype 'a outcome = Returns 'a | Throws error | Undefined fault

text \<open>Sequencing: a throw or a fault ends the call.\<close>

fun and_then :: "'a outcome \<Rightarrow> ('a \<Rightarrow> 'b outcome) \<Rightarrow> 'b outcome" where
  "and_then (Returns x) f = f x"
| "and_then (Throws e) f = Throws e"
| "and_then (Undefined u) f = Undefined u"

text \<open>
  The values handed back to JavaScript: \<^verbatim>\<open>env.Null()\<close>, \<^verbatim>\<open>env.Undefined()\<close>,
  a \<^verbatim>\<open>Napi::Number\<close>, a \<^verbatim>\<open>Napi::Buffer\<close>, and the object of named numbers
  built by \<^verbatim>\<open>GetMetadata\<close>. A buffer comes in the two forms N-API has:
  \<^item> \<open>JsBuffer bs\<close>, made by \<^verbatim>\<open>Napi::Buffer<uint8_t>::Copy\<close>: freshly allocated
    storage that holds the bytes \<open>bs\<close>;
  \<^item> \<open>JsExternalBuffer off n\<close>, made by \<^verbatim>\<open>Napi::Buffer<uint8_t>::New\<close> over a
    pointer: no storage of its own, a window of \<open>n\<close> bytes at offset \<open>off\<close> of
    the mapping.
\<close>

datatype js_value =
    JsNull
  | JsUndefined
  | JsNumber int
  | JsBuffer "byte list"
  | JsExternalBuffer nat nat
  | JsObject "(string \<times> int) list"

text \<open>
  What JavaScript reads in a buffer while the mapping is in the state
  \<open>mapping\<close>: \<open>None\<close> once it is unmapped, else its bytes at that moment, which
  the producer may have rewritten since the buffer was made. An owned buffer
  yields its own bytes; a window yields what the mapping holds now, and
  nothing that is defined once the mapping is gone or too short.
\<close>

fun buffer_contents :: "byte list option \<Rightarrow> js_value \<Rightarrow> byte list option" where
  "buffer_contents mapping (JsBuffer bs) = Some bs"
| "buffer_contents None (JsExternalBuffer off n) = None"
| "buffer_contents (Some m) (JsExternalBuffer off n) =
     (if off + n \<le> length m then Some (take n (drop off m)) else None)"
| "buffer_contents mapping v = None"

subsection \<open>The mapped bytes\<close>

text \<open>
  The mapping is the list of its bytes; its length is the real size of the
  mapped region. Reading \<open>n\<close> bytes at \<open>off\<close> is defined only when the whole
  range lies inside the mapping.
\<close>

definition read_bytes :: "byte list \<Rightarrow> nat \<Rightarrow> nat \<Rightarrow> byte list outcome" where
  "read_bytes m off n =
     (if off + n \<le> length m then Returns (take n (drop off m)) else Undefined OutOfBounds)"

text \<open>A little-endian unsigned integer from its bytes.\<close>

fun le_u32 :: "byte list \<Rightarrow> u32" where
  "le_u32 [] = 0"
| "le_u32 (b # bs) = ucast b + 256 * le_u32 bs"

text \<open>
  Reading a \<^verbatim>\<open>uint32_t\<close> at a byte offset: a field of the header read
  through the \<^verbatim>\<open>ShmHeader\<close> pointer, or \<^verbatim>\<open>memcpy(&length, buf_ + offset, 4)\<close>.
\<close>

definition read_u32 :: "byte list \<Rightarrow> nat \<Rightarrow> u32 outcome" where
  "read_u32 m off = and_then (read_bytes m off 4) (\<lambda>bs. Returns (le_u32 bs))"

text \<open>
  \<^verbatim>\<open>struct ShmHeader\<close>: the offsets of its six fields from the start of the
  mapping.
\<close>

definition write_index :: "byte list \<Rightarrow> u32 outcome" where
  "write_index m = read_u32 m 0"

definition frame_count :: "byte list \<Rightarrow> u32 outcome" where
  "frame_count m = read_u32 m 4"

definition slot_size :: "byte list \<Rightarrow> u32 outcome" where
  "slot_size m = read_u32 m 8"

definition ring_size :: "byte list \<Rightarrow> u32 outcome" where
  "ring_size m = read_u32 m 12"

definition width :: "byte list \<Rightarrow> u32 outcome" where
  "width m = read_u32 m 16"

definition height :: "byte list \<Rightarrow> u32 outcome" where
  "height m = read_u32 m 20"

subsection \<open>The reader object\<close>

text \<open>
  The private members of \<^verbatim>\<open>SharedMemoryReader\<close>. \<open>buf\<close> is \<open>None\<close> for
  \<^verbatim>\<open>nullptr\<close> and otherwise the bytes of the mapping.
\<close>

record reader =
  path :: string
  fd :: int
  buf :: "byte list option"
  file_size :: size_t

text \<open>The member initialisers: \<^verbatim>\<open>fd_ = -1\<close>, \<^verbatim>\<open>buf_ = nullptr\<close>, \<^verbatim>\<open>file_size_ = 0\<close>.\<close>

definition initial_reader :: reader where
  "initial_reader = \<lparr>path = [], fd = - 1, buf = None, file_size = 0\<rparr>"

subsection \<open>\<^verbatim>\<open>ReadLatestFrame\<close>\<close>

text \<open>
  \<^verbatim>\<open>uint32_t slot = (write_idx - 1) % ring_size;\<close> The remainder is taken
  with no test of \<open>ring_size\<close> before it.
\<close>

definition latest_slot :: "u32 \<Rightarrow> u32 \<Rightarrow> u32 outcome" where
  "latest_slot write_idx rsize =
     (if rsize = 0 then Undefined DivisionByZero else Returns ((write_idx - 1) mod rsize))"

text \<open>
  \<^verbatim>\<open>size_t offset = HEADER_SIZE + (static_cast<size_t>(slot) * slot_size);\<close>
\<close>

definition slot_offset :: "u32 \<Rightarrow> u32 \<Rightarrow> size_t" where
  "slot_offset slot ssize = ucast HEADER_SIZE + (ucast slot * ucast ssize)"

definition ReadLatestFrame :: "reader \<Rightarrow> js_value outcome" where
  "ReadLatestFrame r =
     (case buf r of
        None \<Rightarrow> Throws ClosedError
      | Some m \<Rightarrow>
          and_then (write_index m) (\<lambda>write_idx.
          and_then (ring_size m) (\<lambda>rsize.
          and_then (slot_size m) (\<lambda>ssize.
            if write_idx = 0 then Returns JsNull
            else
              and_then (latest_slot write_idx rsize) (\<lambda>slot.
                let offset = slot_offset slot ssize in
                if offset + 4 > file_size r then Throws BoundsError
                else
                  and_then (read_u32 m (unat offset)) (\<lambda>len.
                    if len = 0 \<or> offset + 4 + ucast len > file_size r then Returns JsNull
                    else
                      and_then (read_bytes m (unat offset + 4) (unat len)) (\<lambda>bs.
                        Returns (JsBuffer bs))))))))"

subsection \<open>\<^verbatim>\<open>GetWriteIndex\<close> and \<^verbatim>\<open>GetMetadata\<close>\<close>

definition GetWriteIndex :: "reader \<Rightarrow> js_value outcome" where
  "GetWriteIndex r =
     (case buf r of
        None \<Rightarrow> Returns (JsNumber (- 1))
      | Some m \<Rightarrow> and_then (write_index m) (\<lambda>w. Returns (JsNumber (uint w))))"

definition GetMetadata :: "reader \<Rightarrow> js_value outcome" where
  "GetMetadata r =
     (case buf r of
        None \<Rightarrow> Throws ClosedError
      | Some m \<Rightarrow>
          and_then (write_index m) (\<lambda>wi.
          and_then (frame_count m) (\<lambda>fc.
          and_then (slot_size m) (\<lambda>ss.
          and_then (ring_size m) (\<lambda>rs.
          and_then (width m) (\<lambda>w.
          and_then (height m) (\<lambda>h.
            Returns (JsObject
              [(''writeIndex'', uint wi), (''frameCount'', uint fc),
               (''slotSize'', uint ss), (''ringSize'', uint rs),
               (''width'', uint w), (''height'', uint h)]))))))))"

subsection \<open>The operating system's resources\<close>

text \<open>
  What the process holds: the set of its open file descriptors and the
  number of its live mappings. \<^verbatim>\<open>::close\<close> releases a descriptor and
  \<^verbatim>\<open>munmap\<close> a mapping.
\<close>

record kernel =
  open_fds :: "int set"
  mappings :: int

definition sys_close :: "int \<Rightarrow> kernel \<Rightarrow> kernel" where
  "sys_close d k = k\<lparr>open_fds := open_fds k - {d}\<rparr>"

definition sys_munmap :: "kernel \<Rightarrow> kernel" where
  "sys_munmap k = k\<lparr>mappings := mappings k - 1\<rparr>"

text \<open>
  What the system calls of one construction answer: the result of
  \<^verbatim>\<open>::open\<close> (a descriptor, or a negative number), the result of
  \<^verbatim>\<open>fstat\<close> with the \<^verbatim>\<open>st_size\<close> it stores (an \<^verbatim>\<open>off_t\<close>), and the result
  of \<^verbatim>\<open>mmap\<close> (\<open>None\<close> for \<^verbatim>\<open>MAP_FAILED\<close>, else the mapped bytes).
\<close>

record syscalls =
  open_result :: int
  fstat_result :: int
  st_size :: int
  mmap_result :: "byte list option"

subsection \<open>Construction and \<^verbatim>\<open>DoClose\<close>\<close>

text \<open>The arguments of the JavaScript call \<^verbatim>\<open>new SharedMemoryReader(...)\<close>.\<close>

datatype js_arg = ArgString string | ArgOther

text \<open>
  The constructor. It yields the exception it throws, if any, the members
  of the object as it leaves them, and the resources of the process.
\<close>

definition SharedMemoryReader ::
  "syscalls \<Rightarrow> kernel \<Rightarrow> js_arg list \<Rightarrow> error option \<times> reader \<times> kernel" where
  "SharedMemoryReader sys k info =
     (case info of
        [] \<Rightarrow> (Some TypeError, initial_reader, k)
      | ArgOther # _ \<Rightarrow> (Some TypeError, initial_reader, k)
      | ArgString p # _ \<Rightarrow>
          let r0 = initial_reader\<lparr>path := p\<rparr>;
              r1 = r0\<lparr>fd := open_result sys\<rparr>
          in if fd r1 < 0 then (Some OpenError, r1, k)
             else
               let k1 = k\<lparr>open_fds := insert (fd r1) (open_fds k)\<rparr>
               in if fstat_result sys \<noteq> 0 \<or> st_size sys < uint HEADER_SIZE
                  then (Some SizeError, r1\<lparr>fd := - 1\<rparr>, sys_close (fd r1) k1)
                  else
                    let r2 = r1\<lparr>file_size := word_of_int (st_size sys)\<rparr>
                    in (case mmap_result sys of
                          None \<Rightarrow>
                            (Some MapError, r2\<lparr>buf := None, fd := - 1\<rparr>, sys_close (fd r2) k1)
                        | Some m \<Rightarrow>
                            (None, r2\<lparr>buf := Some m\<rparr>, k1\<lparr>mappings := mappings k1 + 1\<rparr>)))"

definition DoClose :: "reader \<times> kernel \<Rightarrow> reader \<times> kernel" where
  "DoClose rk =
     (let (r, k) = rk;
          (r1, k1) = (if buf r \<noteq> None then (r\<lparr>buf := None\<rparr>, sys_munmap k) else (r, k))
      in if fd r1 \<ge> 0 then (r1\<lparr>fd := - 1\<rparr>, sys_close (fd r1) k1) else (r1, k1))"

text \<open>The method \<^verbatim>\<open>close\<close>: \<^verbatim>\<open>DoClose(); return info.Env().Undefined();\<close>\<close>

definition Close :: "reader \<times> kernel \<Rightarrow> js_value outcome \<times> reader \<times> kernel" where
  "Close rk = (Returns JsUndefined, DoClose rk)"

subsection \<open>Open readers\<close>

text \<open>
  The state a successful construction leaves: a mapping of at least
  \<open>HEADER_SIZE\<close> bytes, whose length is the one recorded in \<open>file_size\<close>.
\<close>

definition is_open :: "reader \<Rightarrow> bool" where
  "is_open r =
     (case buf r of
        None \<Rightarrow> False
      | Some m \<Rightarrow> unat (file_size r) = length m \<and> unat HEADER_SIZE \<le> length m)"

text \<open>
  The system calls answer consistently: \<^verbatim>\<open>mmap\<close> maps as many bytes as it
  was asked for, and a file size fits an \<^verbatim>\<open>off_t\<close>.
\<close>

definition consistent :: "syscalls \<Rightarrow> bool" where
  "consistent sys =
     (st_size sys < 2 ^ 63 \<and>
      (case mmap_result sys of None \<Rightarrow> True | Some m \<Rightarrow> int (length m) = st_size sys))"

subsection \<open>Example files\<close>

text \<open>A process with its three standard descriptors open and nothing mapped.\<close>

definition idle_kernel :: kernel where
  "idle_kernel = \<lparr>open_fds = {0, 1, 2}, mappings = 0\<rparr>"

text \<open>
  Attaching to a file whose bytes are \<open>m\<close>: the constructor, run where
  every system call succeeds.
\<close>

definition attach :: "byte list \<Rightarrow> reader" where
  "attach m =
     fst (snd (SharedMemoryReader
       \<lparr>open_result = 3, fstat_result = 0, st_size = int (length m), mmap_result = Some m\<rparr>
       idle_kernel
       [ArgString ''frames.shm'']))"

text \<open>System calls where \<open>mmap\<close> fails, and where the file has ten bytes.\<close>

definition mmap_fails :: syscalls where
  "mmap_fails = \<lparr>open_result = 3, fstat_result = 0, st_size = 96, mmap_result = None\<rparr>"

definition file_too_small :: syscalls where
  "file_too_small = \<lparr>open_result = 3, fstat_result = 0, st_size = 10, mmap_result = None\<rparr>"

text \<open>
  A ring of four slots of eight bytes after five writes
  (\<open>write_index = 5\<close>, \<open>ring_size = 4\<close>, \<open>slot_size = 8\<close>, 640 by 480):
  slot 0 holds a frame of three bytes.
\<close>

definition ring_file :: "byte list" where
  "ring_file =
     [5, 0, 0, 0,  5, 0, 0, 0,  8, 0, 0, 0,  4, 0, 0, 0,  128, 2, 0, 0,  224, 1, 0, 0]
     @ replicate 40 0
     @ [3, 0, 0, 0, 222, 173, 190, 0]
     @ [2, 0, 0, 0, 17, 18, 0, 0]
     @ [1, 0, 0, 0, 33, 0, 0, 0]
     @ [4, 0, 0, 0, 49, 50, 51, 52]"

text \<open>A header alone, all zero: nothing written yet, and \<open>ring_size = 0\<close>.\<close>

definition blank_file :: "byte list" where
  "blank_file = replicate 64 0"

text \<open>A header alone with \<open>write_index = 1\<close>, \<open>slot_size = 8\<close> and \<open>ring_size = 0\<close>.\<close>

definition zero_ring_file :: "byte list" where
  "zero_ring_file = [1, 0, 0, 0,  1, 0, 0, 0,  8, 0, 0, 0,  0, 0, 0, 0] @ replicate 48 0"

text \<open>
  A header alone with \<open>write_index = 1\<close>, \<open>slot_size = 8\<close> and \<open>ring_size = 1\<close>:
  the file ends where slot 0 would begin.
\<close>

definition truncated_file :: "byte list" where
  "truncated_file = [1, 0, 0, 0,  1, 0, 0, 0,  8, 0, 0, 0,  1, 0, 0, 0] @ replicate 48 0"

text \<open>One slot of eight bytes whose length prefix is 0.\<close>

definition empty_slot_file :: "byte list" where
  "empty_slot_file =
     [1, 0, 0, 0,  1, 0, 0, 0,  8, 0, 0, 0,  1, 0, 0, 0] @ replicate 48 0
     @ [0, 0, 0, 0, 9, 9, 9, 9]"

text \<open>One slot of eight bytes whose length prefix is 200.\<close>

definition overlong_slot_file :: "byte list" where
  "overlong_slot_file =
     [1, 0, 0, 0,  1, 0, 0, 0,  8, 0, 0, 0,  1, 0, 0, 0] @ replicate 48 0
     @ [200, 0, 0, 0, 9, 9, 9, 9]"

section \<open>Properties\<close>

subsection \<open>Word arithmetic of the slot offset\<close>

lemma unat_u32_le: "unat (w :: u32) \<le> 2 ^ 32 - 1"
  using unsigned_less [of w, where 'a = nat] by simp

lemma prod_u32: "unat (a :: u32) * unat (b :: u32) \<le> 18446744065119617025"
proof -
  have "unat a * unat b \<le> (2 ^ 32 - 1) * (2 ^ 32 - 1)"
    using unat_u32_le unat_u32_le by (rule mult_le_mono)
  then show ?thesis by simp
qed

lemma unat_ucast_u32: "unat (ucast (w :: u32) :: size_t) = unat w"
proof -
  have "unat w < 2 ^ 64" using unat_u32_le [of w] by simp
  then show ?thesis by (simp add: unsigned_ucast_eq take_bit_nat_eq_self)
qed

lemma unat_slot_offset: "unat (slot_offset slot ssize) = 64 + unat slot * unat ssize"
proof -
  have c: "unat slot * unat ssize \<le> 18446744065119617025" by (rule prod_u32)
  show ?thesis
    using c by (simp add: slot_offset_def HEADER_SIZE_def unat_word_ariths unat_ucast_u32)
qed

lemma unat_slot_offset_4:
  "unat (slot_offset slot ssize + 4) = 64 + unat slot * unat ssize + 4"
proof -
  have c: "unat slot * unat ssize \<le> 18446744065119617025" by (rule prod_u32)
  show ?thesis
    using c by (simp add: unat_word_ariths unat_slot_offset)
qed

lemma unat_add_size_t:
  "unat a + unat b < 2 ^ 64 \<Longrightarrow> unat (a + b :: size_t) = unat a + unat b"
  using unat_add_lem [of a b] by simp

lemma payload_end_bound:
  "64 + unat (slot :: u32) * unat (ssize :: u32) + 4 + unat (len :: u32) < 2 ^ 64"
proof -
  have c: "unat slot * unat ssize \<le> 18446744065119617025" by (rule prod_u32)
  have d: "unat len \<le> 2 ^ 32 - 1" by (rule unat_u32_le)
  show ?thesis using c d by simp
qed

lemma unat_slot_offset_len:
  "unat (slot_offset slot ssize + 4 + ucast (len :: u32)) =
   64 + unat slot * unat ssize + 4 + unat len"
proof -
  have "unat (slot_offset slot ssize + 4) + unat (ucast len :: size_t) < 2 ^ 64"
    using payload_end_bound [of slot ssize len]
    by (simp only: unat_slot_offset_4 unat_ucast_u32)
  then have "unat (slot_offset slot ssize + 4 + ucast len) =
        unat (slot_offset slot ssize + 4) + unat (ucast len :: size_t)"
    by (rule unat_add_size_t)
  then show ?thesis
    by (simp only: unat_slot_offset_4 unat_ucast_u32)
qed

lemma guard_prefix:
  "unat fs = n \<Longrightarrow> (slot_offset slot ssize + 4 > fs) = (64 + unat slot * unat ssize + 4 > n)"
  by (simp only: word_less_nat_alt unat_slot_offset_4)

lemma guard_payload:
  "unat fs = n \<Longrightarrow>
   (slot_offset slot ssize + 4 + ucast (len :: u32) > fs) =
   (64 + unat slot * unat ssize + 4 + unat len > n)"
  by (simp only: word_less_nat_alt unat_slot_offset_len)

lemma unat_latest: "k \<noteq> 0 \<Longrightarrow> unat ((k - 1) mod R :: u32) = (unat k - 1) mod unat R"
  by (simp add: unat_mod unat_minus_one)

subsection \<open>Reads inside the mapping\<close>

lemma read_u32_inside:
  "off + 4 \<le> length m \<Longrightarrow> read_u32 m off = Returns (le_u32 (take 4 (drop off m)))"
  by (simp add: read_u32_def read_bytes_def)

lemma read_u32_Returns:
  "read_u32 m off = Returns v \<Longrightarrow> off + 4 \<le> length m \<and> v = le_u32 (take 4 (drop off m))"
  by (auto simp: read_u32_def read_bytes_def split: if_splits)

lemma is_open_length:
  "is_open r \<Longrightarrow> buf r = Some m \<Longrightarrow> unat (file_size r) = length m \<and> 64 \<le> length m"
  by (simp add: is_open_def HEADER_SIZE_def)

lemma header_fields_readable:
  assumes "64 \<le> length m"
  shows "\<exists>wi fc ss rs w h.
           write_index m = Returns wi \<and> frame_count m = Returns fc \<and>
           slot_size m = Returns ss \<and> ring_size m = Returns rs \<and>
           width m = Returns w \<and> height m = Returns h"
  using assms
  by (simp add: write_index_def frame_count_def slot_size_def ring_size_def width_def
      height_def read_u32_inside)

subsection \<open>The lookup in exact arithmetic\<close>

lemma ReadLatestFrame_exact:
  assumes op: "is_open r" and m: "buf r = Some m"
    and k: "write_index m = Returns k" and R: "ring_size m = Returns R"
    and s: "slot_size m = Returns s" and k0: "k \<noteq> 0" and R0: "R \<noteq> 0"
    and off: "off = 64 + ((unat k - 1) mod unat R) * unat s"
  shows "ReadLatestFrame r =
     (if length m < off + 4 then Throws BoundsError
      else if le_u32 (take 4 (drop off m)) = 0 \<or>
              length m < off + 4 + unat (le_u32 (take 4 (drop off m)))
           then Returns JsNull
           else Returns (JsBuffer (take (unat (le_u32 (take 4 (drop off m)))) (drop (off + 4) m))))"
proof -
  define slot where "slot = (k - 1) mod R"
  have fs: "unat (file_size r) = length m"
    using op m by (simp add: is_open_length)
  have sl: "unat slot = (unat k - 1) mod unat R"
    using k0 by (simp add: slot_def unat_latest)
  have off': "off = 64 + unat slot * unat s"
    by (simp only: off sl)
  have uo: "unat (slot_offset slot s) = off"
    by (simp only: off' unat_slot_offset)
  have g1: "(slot_offset slot s + 4 > file_size r) = (off + 4 > length m)"
    unfolding off' by (rule guard_prefix [OF fs])
  have g2: "\<And>len :: u32.
      (slot_offset slot s + 4 + ucast len > file_size r) = (off + 4 + unat len > length m)"
    unfolding off' by (rule guard_payload [OF fs])
  have unfold: "ReadLatestFrame r =
     (if off + 4 > length m then Throws BoundsError
      else and_then (read_u32 m off) (\<lambda>len.
             if len = 0 \<or> off + 4 + unat len > length m then Returns JsNull
             else and_then (read_bytes m (off + 4) (unat len)) (\<lambda>bs. Returns (JsBuffer bs))))"
    using k0 R0 by (simp add: ReadLatestFrame_def m k R s latest_slot_def Let_def
        slot_def [symmetric] g1 g2 uo cong: if_cong)
  show ?thesis
  proof (cases "off + 4 > length m")
    case True
    then show ?thesis by (simp add: unfold)
  next
    case False
    then have rd: "read_u32 m off = Returns (le_u32 (take 4 (drop off m)))"
      by (simp add: read_u32_inside)
    show ?thesis
      using False by (simp add: unfold rd read_bytes_def)
  qed
qed

lemma ReadLatestFrame_empty:
  assumes op: "is_open r" and m: "buf r = Some m" and k: "write_index m = Returns 0"
  shows "ReadLatestFrame r = Returns JsNull"
proof -
  have "64 \<le> length m" using op m by (simp add: is_open_length)
  then obtain ss rs where "slot_size m = Returns ss" "ring_size m = Returns rs"
    using header_fields_readable [of m] by blast
  then show ?thesis by (simp add: ReadLatestFrame_def m k)
qed

lemma ReadLatestFrame_zero_ring:
  assumes op: "is_open r" and m: "buf r = Some m"
    and k: "write_index m = Returns k" and R: "ring_size m = Returns 0" and k0: "k \<noteq> 0"
  shows "ReadLatestFrame r = Undefined DivisionByZero"
proof -
  have "64 \<le> length m" using op m by (simp add: is_open_length)
  then obtain ss where "slot_size m = Returns ss"
    using header_fields_readable [of m] by blast
  then show ?thesis using k0 by (simp add: ReadLatestFrame_def m k R latest_slot_def)
qed

lemma ReadLatestFrame_inside:
  assumes op: "is_open r"
  shows "ReadLatestFrame r \<noteq> Undefined OutOfBounds"
proof -
  obtain m where m: "buf r = Some m"
    using op by (auto simp: is_open_def split: option.splits)
  have "64 \<le> length m" using op m by (simp add: is_open_length)
  then obtain k s R where f: "write_index m = Returns k" "slot_size m = Returns s"
      "ring_size m = Returns R"
    using header_fields_readable [of m] by blast
  show ?thesis
  proof (cases "k = 0")
    case True
    then show ?thesis using ReadLatestFrame_empty [OF op m] f by simp
  next
    case k0: False
    show ?thesis
    proof (cases "R = 0")
      case True
      then show ?thesis using ReadLatestFrame_zero_ring [OF op m _ _ k0] f by simp
    next
      case False
      show ?thesis
        by (simp add: ReadLatestFrame_exact [OF op m f(1) f(3) f(2) k0 False refl])
    qed
  qed
qed

lemma GetWriteIndex_inside:
  assumes op: "is_open r"
  shows "GetWriteIndex r \<noteq> Undefined OutOfBounds"
proof -
  obtain m where m: "buf r = Some m"
    using op by (auto simp: is_open_def split: option.splits)
  have "64 \<le> length m" using op m by (simp add: is_open_length)
  then obtain k where "write_index m = Returns k"
    using header_fields_readable [of m] by blast
  then show ?thesis by (simp add: GetWriteIndex_def m)
qed

lemma GetMetadata_open:
  assumes op: "is_open r"
  shows "\<exists>fields. GetMetadata r = Returns (JsObject fields)"
proof -
  obtain m where m: "buf r = Some m"
    using op by (auto simp: is_open_def split: option.splits)
  have "64 \<le> length m" using op m by (simp add: is_open_length)
  then obtain wi fc ss rs w h where "write_index m = Returns wi" "frame_count m = Returns fc"
      "slot_size m = Returns ss" "ring_size m = Returns rs" "width m = Returns w"
      "height m = Returns h"
    using header_fields_readable [of m] by blast
  then show ?thesis by (simp add: GetMetadata_def m)
qed

subsection \<open>Memory safety\<close>

text \<open>
  Claim C2. On an open reader, whatever the header and the slots contain,
  no method reads a byte outside the mapping: every read of
  \<open>ReadLatestFrame\<close>, \<open>GetWriteIndex\<close> and \<open>GetMetadata\<close> lies within
  \<open>[0, length m)\<close>, the size recorded when the file was mapped, so none of
  them ends in the out-of-bounds fault.
\<close>

theorem no_read_outside_mapping:
  assumes "is_open r"
  shows "ReadLatestFrame r \<noteq> Undefined OutOfBounds \<and>
         GetWriteIndex r \<noteq> Undefined OutOfBounds \<and>
         GetMetadata r \<noteq> Undefined OutOfBounds"
  using assms ReadLatestFrame_inside [of r] GetWriteIndex_inside [of r] GetMetadata_open [of r]
  by auto

text \<open>The ring of four slots, attached, is such a reader.\<close>

theorem no_read_outside_mapping_witness:
  "is_open (attach ring_file) \<and>
   ReadLatestFrame (attach ring_file) \<noteq> Undefined OutOfBounds \<and>
   GetWriteIndex (attach ring_file) \<noteq> Undefined OutOfBounds \<and>
   GetMetadata (attach ring_file) \<noteq> Undefined OutOfBounds"
proof -
  have h: "is_open (attach ring_file)" by code_simp
  show ?thesis using h no_read_outside_mapping [OF h] by simp
qed

subsection \<open>An empty ring\<close>

text \<open>
  Claim C6. On an open reader whose header has \<open>write_index = 0\<close>,
  \<open>ReadLatestFrame\<close> returns null, whatever the other header fields and
  the slots hold.
\<close>

theorem no_frame_written_returns_null:
  assumes "is_open r" and "buf r = Some m" and "write_index m = Returns 0"
  shows "ReadLatestFrame r = Returns JsNull"
  using assms by (rule ReadLatestFrame_empty)

text \<open>The blank header, whose \<open>ring_size\<close> is 0 as well.\<close>

theorem no_frame_written_returns_null_witness:
  "is_open (attach blank_file) \<and> buf (attach blank_file) = Some blank_file \<and>
   write_index blank_file = Returns 0 \<and> ring_size blank_file = Returns 0 \<and>
   ReadLatestFrame (attach blank_file) = Returns JsNull"
proof -
  have h1: "is_open (attach blank_file)" by code_simp
  have h2: "buf (attach blank_file) = Some blank_file" by code_simp
  have h3: "write_index blank_file = Returns 0" by code_simp
  have h4: "ring_size blank_file = Returns 0" by code_simp
  show ?thesis
    using h1 h2 h3 h4 no_frame_written_returns_null [OF h1 h2 h3] by simp
qed

subsection \<open>A ring of no slots\<close>

text \<open>
  Claim C1 asks for a bounds error when \<open>write_index > 0\<close> and
  \<open>ring_size = 0\<close>. The method takes the remainder by \<open>ring_size\<close> without
  testing it: on the header with \<open>write_index = 1\<close> and \<open>ring_size = 0\<close> the
  call ends in a division by zero, and throws nothing.
\<close>

theorem zero_ring_size_divides_by_zero:
  "is_open (attach zero_ring_file) \<and>
   write_index zero_ring_file = Returns 1 \<and>
   ring_size zero_ring_file = Returns 0 \<and>
   ReadLatestFrame (attach zero_ring_file) = Undefined DivisionByZero \<and>
   ReadLatestFrame (attach zero_ring_file) \<noteq> Throws BoundsError"
  by code_simp

subsection \<open>The slot that is read\<close>

text \<open>
  Claim C3. On an open reader with \<open>write_index = k > 0\<close> and
  \<open>ring_size = R > 0\<close>, the slot chosen is \<open>(k - 1) mod R\<close> and its offset is
  \<open>64 + ((k - 1) mod R) * slot_size\<close>, both in exact arithmetic; the result
  of \<open>ReadLatestFrame\<close> is read from the bytes at that offset; and past
  the first round (\<open>k > R\<close>) the slot is the one chosen for \<open>k - R\<close>, and
  for the index \<open>((k - 1) mod R) + 1\<close> of the first round.
\<close>

theorem latest_slot_selected:
  assumes "is_open r" and "buf r = Some m"
    and "write_index m = Returns k" and "ring_size m = Returns R"
    and "slot_size m = Returns s" and "k \<noteq> 0" and "R \<noteq> 0"
    and "off = 64 + ((unat k - 1) mod unat R) * unat s"
  shows "latest_slot k R = Returns ((k - 1) mod R) \<and>
         unat ((k - 1) mod R) = (unat k - 1) mod unat R \<and>
         unat (slot_offset ((k - 1) mod R) s) = off \<and>
         ReadLatestFrame r =
           (if length m < off + 4 then Throws BoundsError
            else if le_u32 (take 4 (drop off m)) = 0 \<or>
                    length m < off + 4 + unat (le_u32 (take 4 (drop off m)))
                 then Returns JsNull
                 else Returns (JsBuffer
                   (take (unat (le_u32 (take 4 (drop off m)))) (drop (off + 4) m)))) \<and>
         latest_slot ((k - 1) mod R + 1) R = latest_slot k R \<and>
         (R < k \<longrightarrow> latest_slot (k - R) R = latest_slot k R)"
proof -
  have a: "latest_slot k R = Returns ((k - 1) mod R)"
    using \<open>R \<noteq> 0\<close> by (simp add: latest_slot_def)
  have b: "unat ((k - 1) mod R) = (unat k - 1) mod unat R"
    using \<open>k \<noteq> 0\<close> by (rule unat_latest)
  have c: "unat (slot_offset ((k - 1) mod R) s) = off"
    by (simp only: unat_slot_offset b assms(8))
  have "(k - 1) mod R mod R = (k - 1) mod R"
    by (simp add: word_unat_eq_iff unat_mod)
  then have d: "latest_slot ((k - 1) mod R + 1) R = latest_slot k R"
    using \<open>R \<noteq> 0\<close> by (simp add: latest_slot_def)
  have e: "latest_slot (k - R) R = latest_slot k R" if lt: "R < k"
  proof -
    have un: "unat R < unat k" using lt by (simp add: word_less_nat_alt)
    then have kR0: "k - R \<noteq> 0" using lt by auto
    have sub: "unat (k - R) = unat k - unat R"
      using lt by (simp add: unat_sub word_le_nat_alt word_less_nat_alt)
    have "unat ((k - R - 1) mod R) = (unat k - unat R - 1) mod unat R"
      using kR0 by (simp add: unat_latest sub)
    also have "\<dots> = (unat k - 1 - unat R) mod unat R" by (simp add: diff_commute)
    also have "\<dots> = (unat k - 1) mod unat R"
      using un by (simp add: le_mod_geq)
    finally have "unat ((k - R - 1) mod R) = unat ((k - 1) mod R)"
      by (simp only: b)
    then have "(k - R - 1) mod R = (k - 1) mod R"
      by (rule word_unat_eq_iff [THEN iffD2])
    then show ?thesis using \<open>R \<noteq> 0\<close> by (simp add: latest_slot_def)
  qed
  show ?thesis
    using a b c d e ReadLatestFrame_exact [OF assms] by blast
qed

text \<open>
  The ring of four slots after five writes: slot \<open>(5 - 1) mod 4 = 0\<close> at
  offset 64, the slot of the first write.
\<close>

theorem latest_slot_selected_witness:
  "is_open (attach ring_file) \<and> buf (attach ring_file) = Some ring_file \<and>
   write_index ring_file = Returns 5 \<and> ring_size ring_file = Returns 4 \<and>
   slot_size ring_file = Returns 8 \<and>
   latest_slot 5 4 = Returns 0 \<and>
   unat (slot_offset 0 8) = 64 \<and>
   ReadLatestFrame (attach ring_file) = Returns (JsBuffer [222, 173, 190]) \<and>
   latest_slot 1 4 = latest_slot 5 4"
proof -
  have h1: "is_open (attach ring_file)" by code_simp
  have h2: "buf (attach ring_file) = Some ring_file" by code_simp
  have h3: "write_index ring_file = Returns 5" by code_simp
  have h4: "ring_size ring_file = Returns 4" by code_simp
  have h5: "slot_size ring_file = Returns 8" by code_simp
  have h6: "(5 :: u32) \<noteq> 0" by simp
  have h7: "(4 :: u32) \<noteq> 0" by simp
  have h8: "(64 :: nat) = 64 + ((unat (5 :: u32) - 1) mod unat (4 :: u32)) * unat (8 :: u32)"
    by simp
  have lt: "(4 :: u32) < 5" by simp
  have bytes: "length ring_file = 96 \<and> take 4 (drop 64 ring_file) = [3, 0, 0, 0] \<and>
      drop 68 ring_file = [222, 173, 190, 0] @ drop 72 ring_file"
    by (simp add: ring_file_def)
  have c: "latest_slot 5 4 = Returns ((5 - 1) mod 4) \<and>
         unat ((5 - 1) mod 4 :: u32) = (unat (5 :: u32) - 1) mod unat (4 :: u32) \<and>
         unat (slot_offset ((5 - 1) mod 4) 8) = 64 \<and>
         ReadLatestFrame (attach ring_file) =
           (if length ring_file < 64 + 4 then Throws BoundsError
            else if le_u32 (take 4 (drop 64 ring_file)) = 0 \<or>
                    length ring_file < 64 + 4 + unat (le_u32 (take 4 (drop 64 ring_file)))
                 then Returns JsNull
                 else Returns (JsBuffer
                   (take (unat (le_u32 (take 4 (drop 64 ring_file)))) (drop (64 + 4) ring_file)))) \<and>
         latest_slot ((5 - 1) mod 4 + 1) 4 = latest_slot 5 4 \<and>
         ((4 :: u32) < 5 \<longrightarrow> latest_slot (5 - 4) 4 = latest_slot 5 4)"
    by (rule latest_slot_selected [OF h1 h2 h3 h4 h5 h6 h7 h8])
  show ?thesis
    using h1 h2 h3 h4 h5 lt c by (simp add: bytes)
qed

subsection \<open>The two bounds checks\<close>

text \<open>
  Claim C4. On an open reader with \<open>write_index > 0\<close> and \<open>ring_size > 0\<close>,
  when the four bytes of the length prefix do not fit the mapping
  (\<open>offset + 4\<close> exceeds its length), \<open>ReadLatestFrame\<close> throws the bounds
  error; it does not return null.
\<close>

theorem unreadable_prefix_throws:
  assumes "is_open r" and "buf r = Some m"
    and "write_index m = Returns k" and "ring_size m = Returns R"
    and "slot_size m = Returns s" and "k \<noteq> 0" and "R \<noteq> 0"
    and "off = 64 + ((unat k - 1) mod unat R) * unat s"
    and "length m < off + 4"
  shows "ReadLatestFrame r = Throws BoundsError"
  using assms(9) by (simp add: ReadLatestFrame_exact [OF assms(1-8)])

text \<open>The header that announces one slot in a file of 64 bytes.\<close>

theorem unreadable_prefix_throws_witness:
  "is_open (attach truncated_file) \<and> buf (attach truncated_file) = Some truncated_file \<and>
   write_index truncated_file = Returns 1 \<and> ring_size truncated_file = Returns 1 \<and>
   slot_size truncated_file = Returns 8 \<and> length truncated_file < 64 + 4 \<and>
   ReadLatestFrame (attach truncated_file) = Throws BoundsError"
proof -
  have h1: "is_open (attach truncated_file)" by code_simp
  have h2: "buf (attach truncated_file) = Some truncated_file" by code_simp
  have h3: "write_index truncated_file = Returns 1" by code_simp
  have h4: "ring_size truncated_file = Returns 1" by code_simp
  have h5: "slot_size truncated_file = Returns 8" by code_simp
  have h6: "(1 :: u32) \<noteq> 0" by simp
  have h8: "(64 :: nat) = 64 + ((unat (1 :: u32) - 1) mod unat (1 :: u32)) * unat (8 :: u32)"
    by simp
  have h9: "length truncated_file < 64 + 4" by (simp add: truncated_file_def)
  show ?thesis
    using h1 h2 h3 h4 h5 h9 unreadable_prefix_throws [OF h1 h2 h3 h4 h5 h6 h6 h8 h9]
    by simp
qed

text \<open>
  Claim C5. On an open reader with \<open>write_index > 0\<close> and \<open>ring_size > 0\<close>
  whose length prefix is readable (\<open>offset + 4\<close> within the mapping), when
  the length read is 0 or the payload would end past the mapping
  (\<open>offset + 4 + length\<close> exceeds its length), \<open>ReadLatestFrame\<close> returns
  null and throws nothing.
\<close>

theorem empty_or_overlong_slot_returns_null:
  assumes "is_open r" and "buf r = Some m"
    and "write_index m = Returns k" and "ring_size m = Returns R"
    and "slot_size m = Returns s" and "k \<noteq> 0" and "R \<noteq> 0"
    and "off = 64 + ((unat k - 1) mod unat R) * unat s"
    and "off + 4 \<le> length m"
    and "read_u32 m off = Returns len"
    and "len = 0 \<or> length m < off + 4 + unat len"
  shows "ReadLatestFrame r = Returns JsNull"
proof -
  have "len = le_u32 (take 4 (drop off m))"
    using assms(10) by (simp add: read_u32_Returns)
  then show ?thesis
    using assms(9) assms(11) by (auto simp: ReadLatestFrame_exact [OF assms(1-8)])
qed

text \<open>A slot of length 0, and a slot whose length of 200 passes the end of the file.\<close>

theorem empty_or_overlong_slot_returns_null_witness:
  "is_open (attach empty_slot_file) \<and> read_u32 empty_slot_file 64 = Returns 0 \<and>
   ReadLatestFrame (attach empty_slot_file) = Returns JsNull \<and>
   is_open (attach overlong_slot_file) \<and> read_u32 overlong_slot_file 64 = Returns 200 \<and>
   length overlong_slot_file < 64 + 4 + unat (200 :: u32) \<and>
   ReadLatestFrame (attach overlong_slot_file) = Returns JsNull"
proof -
  have h6: "(1 :: u32) \<noteq> 0" by simp
  have h8: "(64 :: nat) = 64 + ((unat (1 :: u32) - 1) mod unat (1 :: u32)) * unat (8 :: u32)"
    by simp
  have e1: "is_open (attach empty_slot_file)" by code_simp
  have e2: "buf (attach empty_slot_file) = Some empty_slot_file" by code_simp
  have e3: "write_index empty_slot_file = Returns 1" by code_simp
  have e4: "ring_size empty_slot_file = Returns 1" by code_simp
  have e5: "slot_size empty_slot_file = Returns 8" by code_simp
  have e9: "64 + 4 \<le> length empty_slot_file" by (simp add: empty_slot_file_def)
  have e10: "read_u32 empty_slot_file 64 = Returns 0" by code_simp
  have e11: "(0 :: u32) = 0 \<or> length empty_slot_file < 64 + 4 + unat (0 :: u32)" by simp
  have o1: "is_open (attach overlong_slot_file)" by code_simp
  have o2: "buf (attach overlong_slot_file) = Some overlong_slot_file" by code_simp
  have o3: "write_index overlong_slot_file = Returns 1" by code_simp
  have o4: "ring_size overlong_slot_file = Returns 1" by code_simp
  have o5: "slot_size overlong_slot_file = Returns 8" by code_simp
  have o9: "64 + 4 \<le> length overlong_slot_file" by (simp add: overlong_slot_file_def)
  have o10: "read_u32 overlong_slot_file 64 = Returns 200" by code_simp
  have o12: "length overlong_slot_file < 64 + 4 + unat (200 :: u32)"
    by (simp add: overlong_slot_file_def)
  then have o11: "(200 :: u32) = 0 \<or> length overlong_slot_file < 64 + 4 + unat (200 :: u32)" ..
  show ?thesis
    using e1 e10 o1 o10 o12
      empty_or_overlong_slot_returns_null [OF e1 e2 e3 e4 e5 h6 h6 h8 e9 e10 e11]
      empty_or_overlong_slot_returns_null [OF o1 o2 o3 o4 o5 h6 h6 h8 o9 o10 o11]
    by simp
qed

subsection \<open>The frame returned\<close>

text \<open>
  Claim C7. On an open reader whose latest slot holds a length prefix
  \<open>L > 0\<close> with \<open>offset + 4 + L\<close> within the mapping, \<open>ReadLatestFrame\<close>
  returns a buffer of exactly the \<open>L\<close> bytes that follow the prefix, byte
  for byte; and the buffer is a newly owned copy, independent of the
  mapping: whatever state the mapping is in afterwards (rewritten by the
  producer, or unmapped by \<open>DoClose\<close>), the buffer still reads as those
  \<open>L\<close> bytes, and it is not a window on the mapping.
\<close>

theorem frame_bytes_returned:
  assumes "is_open r" and "buf r = Some m"
    and "write_index m = Returns k" and "ring_size m = Returns R"
    and "slot_size m = Returns s" and "k \<noteq> 0" and "R \<noteq> 0"
    and "off = 64 + ((unat k - 1) mod unat R) * unat s"
    and "read_u32 m off = Returns len"
    and "len \<noteq> 0" and "off + 4 + unat len \<le> length m"
  shows "\<exists>bs. ReadLatestFrame r = Returns (JsBuffer bs) \<and>
           bs = take (unat len) (drop (off + 4) m) \<and>
           length bs = unat len \<and>
           (\<forall>i < unat len. bs ! i = m ! (off + 4 + i)) \<and>
           (\<exists>v. ReadLatestFrame r = Returns v \<and>
                (\<forall>later. buffer_contents later v = Some bs) \<and>
                buffer_contents (buf (fst (DoClose (r, kern)))) v = Some bs \<and>
                (\<forall>w n. v \<noteq> JsExternalBuffer w n))"
proof -
  define bs where "bs = take (unat len) (drop (off + 4) m)"
  have len: "len = le_u32 (take 4 (drop off m))"
    using assms(9) by (simp add: read_u32_Returns)
  have res: "ReadLatestFrame r = Returns (JsBuffer bs)"
    using assms(10) assms(11)
    by (simp add: ReadLatestFrame_exact [OF assms(1-8)] len bs_def)
  have l: "length bs = unat len"
    using assms(11) by (simp add: bs_def)
  have n: "\<forall>i < unat len. bs ! i = m ! (off + 4 + i)"
    using assms(11) by (simp add: bs_def)
  have own: "\<forall>later. buffer_contents later (JsBuffer bs) = Some bs"
    by simp
  have closed: "buffer_contents (buf (fst (DoClose (r, kern)))) (JsBuffer bs) = Some bs"
    by simp
  have nowin: "\<forall>w n. JsBuffer bs \<noteq> JsExternalBuffer w n"
    by simp
  have "\<exists>v. ReadLatestFrame r = Returns v \<and>
          (\<forall>later. buffer_contents later v = Some bs) \<and>
          buffer_contents (buf (fst (DoClose (r, kern)))) v = Some bs \<and>
          (\<forall>w n. v \<noteq> JsExternalBuffer w n)"
    using res own closed nowin by blast
  then show ?thesis
    using res l n bs_def by blast
qed

text \<open>
  The frame of three bytes in slot 0 of the ring of four slots: it reads
  the same once the mapping is gone, and once the file is blank; a window
  on the same bytes would not.
\<close>

theorem frame_bytes_returned_witness:
  "is_open (attach ring_file) \<and> read_u32 ring_file 64 = Returns 3 \<and>
   64 + 4 + unat (3 :: u32) \<le> length ring_file \<and>
   ReadLatestFrame (attach ring_file) = Returns (JsBuffer [222, 173, 190]) \<and>
   [ring_file ! 68, ring_file ! 69, ring_file ! 70] = [222, 173, 190] \<and>
   buf (fst (DoClose (attach ring_file, idle_kernel))) = None \<and>
   buffer_contents None (JsBuffer [222, 173, 190]) = Some [222, 173, 190] \<and>
   buffer_contents (Some blank_file) (JsBuffer [222, 173, 190]) = Some [222, 173, 190] \<and>
   buffer_contents (Some ring_file) (JsExternalBuffer 68 3) = Some [222, 173, 190] \<and>
   buffer_contents None (JsExternalBuffer 68 3) = None"
proof -
  have h1: "is_open (attach ring_file)" by code_simp
  have h2: "buf (attach ring_file) = Some ring_file" by code_simp
  have h3: "write_index ring_file = Returns 5" by code_simp
  have h4: "ring_size ring_file = Returns 4" by code_simp
  have h5: "slot_size ring_file = Returns 8" by code_simp
  have h6: "(5 :: u32) \<noteq> 0" by simp
  have h7: "(4 :: u32) \<noteq> 0" by simp
  have h8: "(64 :: nat) = 64 + ((unat (5 :: u32) - 1) mod unat (4 :: u32)) * unat (8 :: u32)"
    by simp
  have h9: "read_u32 ring_file 64 = Returns 3" by code_simp
  have h10: "(3 :: u32) \<noteq> 0" by simp
  have h11: "64 + 4 + unat (3 :: u32) \<le> length ring_file" by (simp add: ring_file_def)
  have bytes: "take 3 (drop 68 ring_file) = [222, 173, 190]"
    by (simp add: ring_file_def)
  have nth: "[ring_file ! 68, ring_file ! 69, ring_file ! 70] = [222, 173, 190]"
    by code_simp
  have gone: "buf (fst (DoClose (attach ring_file, idle_kernel))) = None"
    by code_simp
  have win: "buffer_contents (Some ring_file) (JsExternalBuffer 68 3) = Some [222, 173, 190]"
    by code_simp
  obtain bs where c:
    "ReadLatestFrame (attach ring_file) = Returns (JsBuffer bs)"
    "bs = take (unat (3 :: u32)) (drop (64 + 4) ring_file)"
    "\<exists>v. ReadLatestFrame (attach ring_file) = Returns v \<and>
        (\<forall>later. buffer_contents later v = Some bs) \<and>
        buffer_contents (buf (fst (DoClose (attach ring_file, idle_kernel)))) v = Some bs \<and>
        (\<forall>w n. v \<noteq> JsExternalBuffer w n)"
    using frame_bytes_returned [OF h1 h2 h3 h4 h5 h6 h7 h8 h9 h10 h11, of idle_kernel]
    by blast
  have bs: "bs = [222, 173, 190]" using c(2) by (simp add: bytes)
  have later: "\<forall>later. buffer_contents later (JsBuffer bs) = Some bs"
    using c(1) c(3) by auto
  have l1: "buffer_contents None (JsBuffer [222, 173, 190]) = Some [222, 173, 190]"
    using later bs by blast
  have l2: "buffer_contents (Some blank_file) (JsBuffer [222, 173, 190]) = Some [222, 173, 190]"
    using later bs by blast
  show ?thesis
    using h1 h9 h11 nth gone win c(1) bs l1 l2 by simp
qed

subsection \<open>Offsets in 64 bits\<close>

text \<open>
  Claim C9. For every 32-bit slot index (so for each one below
  \<open>ring_size\<close>), slot size and length, the 64-bit sums of the lookup equal
  the exact ones: \<open>HEADER_SIZE + slot * slot_size + 4 + length\<close> stays below
  \<open>2 ^ 64\<close>, nothing wraps, and the tests \<open>offset + 4 > file_size\<close> and
  \<open>offset + 4 + length > file_size\<close> decide what they decide over the
  integers.
\<close>

theorem offset_arithmetic_exact:
  fixes slot ssize len :: u32 and fs :: size_t
  shows "64 + unat slot * unat ssize + 4 + unat len < 2 ^ 64 \<and>
         unat (slot_offset slot ssize) = 64 + unat slot * unat ssize \<and>
         unat (slot_offset slot ssize + 4) = 64 + unat slot * unat ssize + 4 \<and>
         unat (slot_offset slot ssize + 4 + ucast len) =
           64 + unat slot * unat ssize + 4 + unat len \<and>
         (slot_offset slot ssize + 4 > fs) = (64 + unat slot * unat ssize + 4 > unat fs) \<and>
         (slot_offset slot ssize + 4 + ucast len > fs) =
           (64 + unat slot * unat ssize + 4 + unat len > unat fs)"
  using payload_end_bound [of slot ssize len]
    unat_slot_offset [of slot ssize] unat_slot_offset_4 [of slot ssize]
    unat_slot_offset_len [of slot ssize len]
    guard_prefix [OF refl, where fs = fs and slot = slot and ssize = ssize]
    guard_payload [OF refl, where fs = fs and slot = slot and ssize = ssize and len = len]
  by blast

subsection \<open>Construction\<close>

lemma SharedMemoryReader_open:
  assumes c: "consistent sys" and ok: "SharedMemoryReader sys k info = (None, r, k')"
  shows "is_open r \<and> fd r = open_result sys \<and> 0 \<le> fd r \<and> buf r = mmap_result sys"
proof -
  obtain m where m: "mmap_result sys = Some m"
    using ok by (auto simp: SharedMemoryReader_def Let_def
        split: list.splits js_arg.splits if_splits option.splits)
  have sz: "st_size sys = int (length m)" and lt: "int (length m) < 2 ^ 63"
    using c m by (simp_all add: consistent_def)
  have big: "64 \<le> length m"
    using ok m sz by (auto simp: SharedMemoryReader_def Let_def HEADER_SIZE_def
        split: list.splits js_arg.splits if_splits)
  have "length m < 2 ^ 64" using lt by simp
  then have un: "unat (word_of_int (int (length m)) :: size_t) = length m"
    by (simp add: unat_of_nat)
  show ?thesis
    using ok m sz big un
    by (auto simp: SharedMemoryReader_def Let_def is_open_def HEADER_SIZE_def
        split: list.splits js_arg.splits if_splits)
qed

lemma SharedMemoryReader_fails_iff:
  "fst (SharedMemoryReader sys k (ArgString p # rest)) \<noteq> None \<longleftrightarrow>
     open_result sys < 0 \<or> fstat_result sys \<noteq> 0 \<or> st_size sys < 64 \<or>
     mmap_result sys = None"
  by (auto simp: SharedMemoryReader_def Let_def HEADER_SIZE_def split: option.splits)

lemma closed_reader_methods:
  assumes "buf r = None"
  shows "ReadLatestFrame r = Throws ClosedError \<and> GetMetadata r = Throws ClosedError \<and>
         GetWriteIndex r = Returns (JsNumber (- 1))"
  using assms by (simp add: ReadLatestFrame_def GetMetadata_def GetWriteIndex_def)

lemma DoClose_closed:
  "buf r = None \<Longrightarrow> fd r < 0 \<Longrightarrow> DoClose (r, k) = (r, k)"
  by (simp add: DoClose_def)

lemma DoClose_closes:
  "buf (fst (DoClose rk)) = None \<and> fd (fst (DoClose rk)) < 0"
  by (cases rk) (simp add: DoClose_def Let_def)

lemma DoClose_twice: "DoClose (DoClose rk) = DoClose rk"
proof -
  obtain r k where rk: "DoClose rk = (r, k)" by (cases "DoClose rk")
  have "buf r = None \<and> fd r < 0" using DoClose_closes [of rk] by (simp add: rk)
  then show ?thesis by (simp add: rk DoClose_closed)
qed

lemma DoClose_again: "(DoClose ^^ n) (DoClose rk) = DoClose rk"
  by (induction n) (simp_all add: DoClose_twice)

text \<open>
  Claim C10. When the constructor throws (the file cannot be opened, it is
  smaller than the header or \<open>fstat\<close> fails, or \<open>mmap\<close> fails), the object
  is left as a closed one: no mapping and no descriptor, so that
  \<open>ReadLatestFrame\<close> and \<open>GetMetadata\<close> throw the closed error,
  \<open>GetWriteIndex\<close> returns -1 and \<open>DoClose\<close> has nothing to release; and
  the process holds the descriptors and mappings it held before, the
  descriptor that \<open>open\<close> returned being closed again.
\<close>

theorem failed_construction_is_closed:
  assumes "SharedMemoryReader sys k info = (Some e, r, k')"
    and "open_result sys \<notin> open_fds k"
  shows "buf r = None \<and> fd r < 0 \<and>
         ReadLatestFrame r = Throws ClosedError \<and>
         GetMetadata r = Throws ClosedError \<and>
         GetWriteIndex r = Returns (JsNumber (- 1)) \<and>
         DoClose (r, k') = (r, k') \<and>
         k' = k"
proof -
  have st: "buf r = None \<and> fd r < 0 \<and> k' = k"
    using assms
    by (auto simp: SharedMemoryReader_def Let_def initial_reader_def sys_close_def
        split: list.splits js_arg.splits if_splits option.splits)
  then show ?thesis
    using closed_reader_methods [of r] DoClose_closed [of r k'] by simp
qed

text \<open>
  A failing \<open>mmap\<close> and a file of ten bytes, in a process whose open
  descriptors are 0, 1 and 2.
\<close>

theorem failed_construction_is_closed_witness:
  "open_result mmap_fails \<notin> open_fds idle_kernel \<and>
   SharedMemoryReader mmap_fails idle_kernel [ArgString ''frames.shm''] =
     (Some MapError, \<lparr>path = ''frames.shm'', fd = - 1, buf = None, file_size = 96\<rparr>,
      idle_kernel) \<and>
   ReadLatestFrame \<lparr>path = ''frames.shm'', fd = - 1, buf = None, file_size = 96\<rparr> =
     Throws ClosedError \<and>
   GetMetadata \<lparr>path = ''frames.shm'', fd = - 1, buf = None, file_size = 96\<rparr> =
     Throws ClosedError \<and>
   GetWriteIndex \<lparr>path = ''frames.shm'', fd = - 1, buf = None, file_size = 96\<rparr> =
     Returns (JsNumber (- 1)) \<and>
   open_result file_too_small \<notin> open_fds idle_kernel \<and>
   SharedMemoryReader file_too_small idle_kernel [ArgString ''frames.shm''] =
     (Some SizeError, \<lparr>path = ''frames.shm'', fd = - 1, buf = None, file_size = 0\<rparr>,
      idle_kernel) \<and>
   ReadLatestFrame \<lparr>path = ''frames.shm'', fd = - 1, buf = None, file_size = 0\<rparr> =
     Throws ClosedError"
proof -
  have f1: "open_result mmap_fails \<notin> open_fds idle_kernel"
    by (simp add: mmap_fails_def idle_kernel_def)
  have r1: "SharedMemoryReader mmap_fails idle_kernel [ArgString ''frames.shm''] =
     (Some MapError, \<lparr>path = ''frames.shm'', fd = - 1, buf = None, file_size = 96\<rparr>,
      idle_kernel)"
    by (simp add: SharedMemoryReader_def mmap_fails_def idle_kernel_def initial_reader_def
        HEADER_SIZE_def sys_close_def)
  have f2: "open_result file_too_small \<notin> open_fds idle_kernel"
    by (simp add: file_too_small_def idle_kernel_def)
  have r2: "SharedMemoryReader file_too_small idle_kernel [ArgString ''frames.shm''] =
     (Some SizeError, \<lparr>path = ''frames.shm'', fd = - 1, buf = None, file_size = 0\<rparr>,
      idle_kernel)"
    by (simp add: SharedMemoryReader_def file_too_small_def idle_kernel_def initial_reader_def
        HEADER_SIZE_def sys_close_def)
  show ?thesis
    using f1 r1 f2 r2 failed_construction_is_closed [OF r1 f1]
      failed_construction_is_closed [OF r2 f2]
    by simp
qed

subsection \<open>Closing\<close>

lemma Close_state: "snd (Close rk) = DoClose rk"
  by (simp add: Close_def)

lemma Close_again: "((\<lambda>x. snd (Close x)) ^^ n) (snd (Close rk)) = snd (Close rk)"
  by (induction n) (simp_all add: Close_state DoClose_twice)

text \<open>
  Claim C8. For every reader, the method \<open>close\<close> is idempotent: it
  leaves the state that \<open>DoClose\<close> leaves, a second and any later
  \<open>close\<close> changes neither the object nor the resources of the process,
  and each of them returns \<open>undefined\<close> without throwing. After \<open>close\<close>
  the reader has no mapping and no descriptor, \<open>ReadLatestFrame\<close> and
  \<open>GetMetadata\<close> throw the closed error, and \<open>GetWriteIndex\<close> returns -1
  and throws nothing. The same holds of \<open>DoClose\<close> itself.
\<close>

theorem close_idempotent:
  "snd (Close rk) = DoClose rk \<and>
   fst (Close rk) = Returns JsUndefined \<and>
   Close (snd (Close rk)) = (Returns JsUndefined, snd (Close rk)) \<and>
   ((\<lambda>x. snd (Close x)) ^^ Suc n) (snd (Close rk)) = snd (Close rk) \<and>
   fst (Close (((\<lambda>x. snd (Close x)) ^^ n) (snd (Close rk)))) = Returns JsUndefined \<and>
   buf (fst (snd (Close rk))) = None \<and> fd (fst (snd (Close rk))) < 0 \<and>
   ReadLatestFrame (fst (snd (Close rk))) = Throws ClosedError \<and>
   GetMetadata (fst (snd (Close rk))) = Throws ClosedError \<and>
   GetWriteIndex (fst (snd (Close rk))) = Returns (JsNumber (- 1)) \<and>
   (DoClose ^^ Suc n) (DoClose rk) = DoClose rk \<and>
   Close (DoClose rk) = (Returns JsUndefined, DoClose rk) \<and>
   buf (fst (DoClose rk)) = None \<and> fd (fst (DoClose rk)) < 0 \<and>
   ReadLatestFrame (fst (DoClose rk)) = Throws ClosedError \<and>
   GetMetadata (fst (DoClose rk)) = Throws ClosedError \<and>
   GetWriteIndex (fst (DoClose rk)) = Returns (JsNumber (- 1))"
proof -
  have st: "snd (Close rk) = DoClose rk" by (rule Close_state)
  have a: "(DoClose ^^ Suc n) (DoClose rk) = DoClose rk" by (rule DoClose_again)
  have b: "Close (DoClose rk) = (Returns JsUndefined, DoClose rk)"
    by (simp add: Close_def DoClose_twice)
  have c: "fst (Close rk) = Returns JsUndefined" by (simp add: Close_def)
  have d: "((\<lambda>x. snd (Close x)) ^^ Suc n) (snd (Close rk)) = snd (Close rk)"
    by (rule Close_again)
  have e: "fst (Close (((\<lambda>x. snd (Close x)) ^^ n) (snd (Close rk)))) = Returns JsUndefined"
    by (simp add: Close_def)
  have f: "buf (fst (DoClose rk)) = None \<and> fd (fst (DoClose rk)) < 0"
    by (rule DoClose_closes)
  have g: "ReadLatestFrame (fst (DoClose rk)) = Throws ClosedError \<and>
           GetMetadata (fst (DoClose rk)) = Throws ClosedError \<and>
           GetWriteIndex (fst (DoClose rk)) = Returns (JsNumber (- 1))"
    using f by (simp add: closed_reader_methods)
  show ?thesis
    unfolding st using a b c d [unfolded st] e [unfolded st] f g by simp
qed

end
